theory Spec2Isabelle
  imports Main "HOL-Library.Sublist"
begin

section \<open>Python strings and the library functions the picker module calls\<close>

text \<open>
  A Python \<open>str\<close> is modelled as a \<open>string\<close>, read as a sequence of code points: a
  \<open>char\<close> stands for one code point in the range U+0000 to U+00FF (not for a byte of
  an encoding). The classification functions below are Python's, restricted to that range.
\<close>

text \<open>\<open>str.isspace\<close> on one character: the code points below U+0100 that Python
  treats as whitespace.\<close>

definition isspace :: "char \<Rightarrow> bool" where
  "isspace c = (c \<in> set [CHR 0x09, CHR 0x0A, CHR 0x0B, CHR 0x0C, CHR 0x0D, CHR 0x1C,
                           CHR 0x1D, CHR 0x1E, CHR 0x1F, CHR 0x20, CHR 0x85, CHR 0xA0])"

text \<open>\<open>s.strip()\<close>: leading and trailing whitespace removed.\<close>

definition strip :: "string \<Rightarrow> string" where
  "strip s = rev (dropWhile isspace (rev (dropWhile isspace s)))"

text \<open>\<open>s or None\<close>: the empty string is falsy.\<close>

definition or_None :: "string \<Rightarrow> string option" where
  "or_None s = (if s = [] then None else Some s)"

text \<open>\<open>sep.join(xs)\<close>.\<close>

fun join :: "string \<Rightarrow> string list \<Rightarrow> string" where
  "join sep [] = []"
| "join sep [x] = x"
| "join sep (x # y # ys) = x @ sep @ join sep (y # ys)"

text \<open>\<open>str(n)\<close> for an integer: decimal digits, a minus sign for negative numbers.\<close>

fun str_nat :: "nat \<Rightarrow> string" where
  "str_nat n =
     (if n < 10 then [''0123456789'' ! n]
      else str_nat (n div 10) @ [''0123456789'' ! (n mod 10)])"

declare str_nat.simps [simp del]

definition str_int :: "int \<Rightarrow> string" where
  "str_int i = (if i < 0 then CHR ''-'' # str_nat (nat (- i)) else str_nat (nat i))"

text \<open>\<open>s.splitlines(True)\<close>: the lines of \<open>s\<close> with their line ends kept. The
  line boundaries below U+0100 are LF, VT, FF, CR, FS, GS, RS and NEL; CR LF is one
  boundary. The first argument is the line read so far.\<close>

definition is_linebreak :: "char \<Rightarrow> bool" where
  "is_linebreak c = (c \<in> set [CHR 0x0A, CHR 0x0B, CHR 0x0C, CHR 0x0D, CHR 0x1C, CHR 0x1D,
                               CHR 0x1E, CHR 0x85])"

fun splitlines_from :: "string \<Rightarrow> string \<Rightarrow> string list" where
  "splitlines_from cur [] = (if cur = [] then [] else [cur])"
| "splitlines_from cur (c # cs) =
     (if c = CHR 0x0D then
        (case cs of
           [] \<Rightarrow> [cur @ [c]]
         | d # ds \<Rightarrow>
             if d = CHR 0x0A then (cur @ [c, d]) # splitlines_from [] ds
             else (cur @ [c]) # splitlines_from [] cs)
      else if is_linebreak c then (cur @ [c]) # splitlines_from [] cs
      else splitlines_from (cur @ [c]) cs)"

definition splitlines_keepends :: "string \<Rightarrow> string list" where
  "splitlines_keepends s = splitlines_from [] s"

text \<open>\<open>textwrap.indent(s, pfx)\<close> with the default predicate: the prefix is put
  in front of every line that does not consist of whitespace only.\<close>

definition indent :: "string \<Rightarrow> string \<Rightarrow> string" where
  "indent s pfx =
     concat (map (\<lambda>line. if strip line \<noteq> [] then pfx @ line else line)
                 (splitlines_keepends s))"

definition INDENT :: string where
  "INDENT = ''  ''"

subsection \<open>\<open>string.Template.safe_substitute\<close>\<close>

text \<open>
  The template pattern of the standard library is
  \<^verbatim>\<open>\$(?:(?P<escaped>\$)|(?P<named>id)|{(?P<braced>id)}|(?P<invalid>))\<close>
  with \<^verbatim>\<open>id = (?a:[_a-z][_a-z0-9]*)\<close> under \<^verbatim>\<open>re.IGNORECASE\<close>.
  \<open>match_delim\<close> matches what follows a dollar sign and returns the group that
  matched together with the text after the match.
\<close>

definition id_start :: "char \<Rightarrow> bool" where
  "id_start c = (c \<in> set ''_abcdefghijklmnopqrstuvwxyzABCDEFGHIJKLMNOPQRSTUVWXYZ'')"

definition id_char :: "char \<Rightarrow> bool" where
  "id_char c = (id_start c \<or> c \<in> set ''0123456789'')"



datatype match_group = Escaped | Named string | Braced string | Invalid

definition match_delim :: "string \<Rightarrow> match_group \<times> string" where
  "match_delim cs =
     (case cs of
        [] \<Rightarrow> (Invalid, cs)
      | d # ds \<Rightarrow>
          if d = CHR ''$'' then (Escaped, ds)
          else if id_start d then (Named (takeWhile id_char cs), dropWhile id_char cs)
          else if d = CHR ''{'' then
            (case ds of
               [] \<Rightarrow> (Invalid, cs)
             | e # es \<Rightarrow>
                 if id_start e then
                   (case dropWhile id_char ds of
                      [] \<Rightarrow> (Invalid, cs)
                    | f # fs \<Rightarrow>
                        if f = CHR ''}'' then (Braced (takeWhile id_char ds), fs)
                        else (Invalid, cs))
                 else (Invalid, cs))
          else (Invalid, cs))"

text \<open>The helper \<open>convert\<close> of \<open>safe_substitute\<close>, for the mapping
  \<open>{title: title}\<close>: a known name gives its value, an unknown name gives the matched
  text back, the escape gives the delimiter, an ill-formed delimiter gives the matched
  text (the dollar sign) back.\<close>

fun convert :: "string \<Rightarrow> match_group \<Rightarrow> string" where
  "convert title (Named n) = (if n = ''title'' then title else ''$'' @ n)"
| "convert title (Braced n) = (if n = ''title'' then title else ''${'' @ n @ ''}'')"
| "convert title Escaped = ''$''"
| "convert title Invalid = ''$''"

text \<open>\<open>Template(tmpl).safe_substitute(title=title)\<close>: every match of the pattern,
  from left to right, is replaced by what \<open>convert\<close> returns for it.\<close>

function safe_substitute :: "string \<Rightarrow> string \<Rightarrow> string" where
  "safe_substitute [] title = []"
| "safe_substitute (c # cs) title =
     (if c = CHR ''$'' then
        (case match_delim cs of (g, rest) \<Rightarrow> convert title g @ safe_substitute rest title)
      else c # safe_substitute cs title)"
  by pat_completeness auto
termination
proof (relation "measure (\<lambda>(s, title). length s)", goal_cases)
  case 1
  show ?case by simp
next
  case (2 c cs title x y)
  have drop_le: "length (dropWhile id_char xs) \<le> length xs" for xs :: string
    by (rule length_dropWhile_le)
  have "length (snd (match_delim cs)) \<le> length cs"
  proof (cases cs)
    case Nil
    then show ?thesis by (simp add: match_delim_def)
  next
    case (Cons d ds)
    then show ?thesis
      using drop_le [of ds] drop_le [of cs]
      by (auto simp: match_delim_def split: list.splits)
  qed
  moreover from 2 have "y = snd (match_delim cs)" by (metis snd_conv)
  ultimately show ?case by simp
next
  case (3 c cs title)
  show ?case by simp
qed

subsection \<open>\<open>shlex.join\<close>\<close>

text \<open>\<open>shlex.quote\<close>: the empty string becomes two single quotes; a string of safe
  characters (ASCII letters, digits and \<^verbatim>\<open>_@%+=:,./-\<close>) is returned as it is;
  any other string is put in single quotes, each single quote of it replaced by
  \<^verbatim>\<open>'"'"'\<close>.\<close>

definition safe_char :: "char \<Rightarrow> bool" where
  "safe_char c =
     (c \<in> set ''abcdefghijklmnopqrstuvwxyzABCDEFGHIJKLMNOPQRSTUVWXYZ0123456789_@%+=:,./-'')"

definition quote :: "string \<Rightarrow> string" where
  "quote s =
     (if s = [] then [CHR 0x27, CHR 0x27]
      else if find (\<lambda>c. \<not> safe_char c) s = None then s
      else [CHR 0x27] @
           concat (map (\<lambda>c. if c = CHR 0x27
                             then [CHR 0x27, CHR 0x22, CHR 0x27, CHR 0x22, CHR 0x27]
                             else [c]) s) @
           [CHR 0x27])"

definition shlex_join :: "string list \<Rightarrow> string" where
  "shlex_join xs = join '' '' (map quote xs)"

section \<open>Exceptions, processes and the outside world\<close>

text \<open>
  An exception is its class and its message (\<open>str(e)\<close>). The classes are the ones
  the module raises or tells apart: \<open>OtherException n\<close> is any other class \<open>n\<close>
  derived from \<open>Exception\<close> (and not from \<open>FileNotFoundError\<close>);
  \<open>KeyboardInterrupt\<close> and \<open>SystemExit\<close> derive from \<open>BaseException\<close>
  only, so \<open>except Exception\<close> does not catch them.
\<close>

datatype exc_class =
  ValueError | RuntimeError | FileNotFoundError | TypeError | OtherException string
  | KeyboardInterrupt | SystemExit

datatype exn = Exc exc_class string

fun exc_class_of :: "exn \<Rightarrow> exc_class" where
  "exc_class_of (Exc c m) = c"

text \<open>\<open>str(e)\<close>.\<close>

fun str_exn :: "exn \<Rightarrow> string" where
  "str_exn (Exc c m) = m"

text \<open>\<open>isinstance(e, Exception)\<close> and \<open>isinstance(e, FileNotFoundError)\<close>.\<close>

fun derives_Exception :: "exc_class \<Rightarrow> bool" where
  "derives_Exception KeyboardInterrupt = False"
| "derives_Exception SystemExit = False"
| "derives_Exception ValueError = True"
| "derives_Exception RuntimeError = True"
| "derives_Exception FileNotFoundError = True"
| "derives_Exception TypeError = True"
| "derives_Exception (OtherException n) = True"

definition is_Exception :: "exn \<Rightarrow> bool" where
  "is_Exception e = derives_Exception (exc_class_of e)"

definition is_FileNotFoundError :: "exn \<Rightarrow> bool" where
  "is_FileNotFoundError e = (exc_class_of e = FileNotFoundError)"

text \<open>\<open>subprocess.CompletedProcess\<close>, with \<open>text=True\<close> and
  \<open>capture_output=True\<close>.\<close>

record completed_process =
  returncode :: int
  stdout :: string
  stderr :: string

text \<open>
  A preset of \<open>PICKERS\<close>: a dictionary with the keys below. A key that is absent is
  \<open>None\<close> at the outer \<open>option\<close>; for the keys whose value may be Python's
  \<open>None\<close> (\<open>list[str] | None\<close>, \<open>list[int] | None\<close>) the inner \<open>option\<close> is
  that value. The values have the types the executors' signatures give them; a preset
  whose \<open>strategy\<close> or \<open>command\<close> is present and is no string is outside this model.
\<close>

record picker_config =
  cfg_strategy :: "string option"
  cfg_command :: "string option"
  cfg_args :: "string list option option"
  cfg_success_exit_codes :: "int list option option"
  cfg_ignore_exit_codes :: "int list option option"
  cfg_entry_separator :: "string option"

text \<open>
  The state the module reads and changes: whether the global \<open>_pyfzf_prompt\<close> holds a
  client, the calls of \<open>subprocess.run\<close> made so far (the argument vector and the text
  given as standard input), the calls of the client's \<open>prompt\<close> (the choices and the
  option string), and the messages printed to \<open>sys.stderr\<close>.
\<close>

record world =
  pyfzf_prompt_set :: bool
  run_calls :: "(string list \<times> string) list"
  fzf_calls :: "(string list \<times> string) list"
  sys_stderr :: "string list"

text \<open>
  What the module does not define and only calls: \<open>subprocess.run\<close> (it returns the
  completed process or raises), the import of \<open>pyfzf.pyfzf.FzfPrompt\<close> and its
  constructor (each may raise), the client's \<open>prompt\<close> (it returns the selected lines
  or raises), and \<open>str\<close> of a preset's dictionary.
\<close>

record env =
  subprocess_run :: "string list \<Rightarrow> string \<Rightarrow> exn + completed_process"
  import_FzfPrompt :: "exn option"
  new_FzfPrompt :: "exn option"
  FzfPrompt_prompt :: "string list \<Rightarrow> string \<Rightarrow> exn + string list"
  str_dict :: "picker_config \<Rightarrow> string"

type_synonym outcome = "(exn + string option) \<times> world"

section \<open>The picker module\<close>

definition DEFAULT_PICKER :: string where
  "DEFAULT_PICKER = ''default''"

definition PICKERS :: "(string \<times> picker_config) list" where
  "PICKERS =
     [(''default'',
       \<lparr>cfg_strategy = Some ''pyfzf'',
        cfg_command = None,
        cfg_args = Some (Some [''--cycle'', ''--prompt'']),
        cfg_success_exit_codes = None,
        cfg_ignore_exit_codes = None,
        cfg_entry_separator = None\<rparr>),
      (''fzf'',
       \<lparr>cfg_strategy = Some ''shell'',
        cfg_command = Some ''fzf'',
        cfg_args = Some (Some [''--cycle'', ''--prompt'', ''$title'']),
        cfg_success_exit_codes = Some (Some [0]),
        cfg_ignore_exit_codes = Some (Some [130]),
        cfg_entry_separator = Some '' ''\<rparr>),
      (''zenity'',
       \<lparr>cfg_strategy = Some ''shell'',
        cfg_command = Some ''zenity'',
        cfg_args = Some (Some [''--list'', ''--title=nix-alien: Choose a package'',
                               ''--text=$title'', ''--column=Libraries'']),
        cfg_success_exit_codes = Some (Some [0]),
        cfg_ignore_exit_codes = Some (Some [1]),
        cfg_entry_separator = Some '' ''\<rparr>)]"

subsection \<open>The embedded-prompt executor\<close>

definition run_pyfzf ::
  "env \<Rightarrow> string list \<Rightarrow> string \<Rightarrow> string list option \<Rightarrow> world \<Rightarrow> outcome" where
  "run_pyfzf env entries title args w =
     (let args = (case args of None \<Rightarrow> [] | Some a \<Rightarrow> a) in
      case import_FzfPrompt env of
        Some e \<Rightarrow> (Inl e, w)
      | None \<Rightarrow>
          (case (if pyfzf_prompt_set w then None else new_FzfPrompt env) of
             Some e \<Rightarrow> (Inl e, w)
           | None \<Rightarrow>
               (let w1 = w\<lparr>pyfzf_prompt_set := True\<rparr>;
                    options = shlex_join (args @ [title @ ''> '']);
                    w2 = w1\<lparr>fzf_calls := fzf_calls w1 @ [(entries, options)]\<rparr>
                in case FzfPrompt_prompt env entries options of
                     Inl e \<Rightarrow> (Inl e, w2)
                   | Inr result \<Rightarrow>
                       (case result of
                          [] \<Rightarrow> (Inr None, w2)
                        | r # rs \<Rightarrow> (Inr (Some r), w2)))))"

subsection \<open>The shell executor\<close>

text \<open>
  The argument \<open>entry_separator\<close> is \<open>None\<close> when the caller does not give it; the
  default of the parameter is a newline. \<open>body\<close> is the outcome of the \<open>try\<close>
  block: the exception \<open>subprocess.run\<close> raised, the value returned, or the
  \<open>RuntimeError\<close> raised for an exit code that is neither a success nor ignored. The
  two handlers follow: \<open>except FileNotFoundError\<close>, then \<open>except Exception\<close>; an
  exception that matches neither leaves the function as it is.
\<close>

definition run_shell ::
  "env \<Rightarrow> string list \<Rightarrow> string \<Rightarrow> string \<Rightarrow> string list option \<Rightarrow> int list option \<Rightarrow>
   int list option \<Rightarrow> string option \<Rightarrow> world \<Rightarrow> outcome" where
  "run_shell env entries title command args success_exit_codes ignore_exit_codes
       entry_separator w =
     (let entry_separator = (case entry_separator of None \<Rightarrow> ''\<newline>'' | Some sep \<Rightarrow> sep);
          args = (case args of None \<Rightarrow> [] | Some a \<Rightarrow> a);
          success_exit_codes = (case success_exit_codes of None \<Rightarrow> [] | Some cs \<Rightarrow> cs);
          ignore_exit_codes = (case ignore_exit_codes of None \<Rightarrow> [] | Some cs \<Rightarrow> cs);
          command = strip command
      in if command = [] then
           (Inl (Exc ValueError
              (''Given 'command' parameter is empty or whitespace only: '{command}'' @
               [CHR 0x27])), w)
         else
           (let formatted_args = map (\<lambda>arg. safe_substitute arg title) args;
                full_cmd = command # formatted_args;
                stdin = join entry_separator entries;
                w1 = w\<lparr>run_calls := run_calls w @ [(full_cmd, stdin)]\<rparr>;
                body =
                  (case subprocess_run env full_cmd stdin of
                     Inl e \<Rightarrow> Inl e
                   | Inr proc \<Rightarrow>
                       if returncode proc \<in> set success_exit_codes
                       then Inr (or_None (strip (stdout proc)))
                       else if returncode proc \<in> set ignore_exit_codes then Inr None
                       else
                         (let err = (case or_None (strip (stderr proc)) of
                                       None \<Rightarrow> ''No error message returned.''
                                     | Some m \<Rightarrow> m)
                          in Inl (Exc RuntimeError
                                (''Exit code '' @ str_int (returncode proc) @ '': \<newline>'' @ err))))
            in case body of
                 Inr r \<Rightarrow> (Inr r, w1)
               | Inl e \<Rightarrow>
                   if is_FileNotFoundError e then
                     (Inl (Exc FileNotFoundError
                        (''Could not find the binary '' @ [CHR 0x27] @ command @ [CHR 0x27] @
                         '' in your PATH.'')), w1)
                   else if is_Exception e then
                     (let pargs = join '' '' formatted_args
                      in (Inl (Exc RuntimeError
                            (''Failed to execute shell command: '' @ command @ '' '' @ pargs @
                             [CHR 0x27] @ ''\<newline>'' @ indent (str_exn e) INDENT)), w1))
                   else (Inl e, w1)))"

subsection \<open>Calling an executor with a preset's keys as keyword arguments\<close>

text \<open>
  \<open>executor(entries, prompt_title, **picker_config)\<close> binds the keys of the preset to
  the parameters of the executor. A parameter without a default whose key is absent makes
  the call raise \<open>TypeError\<close> before the body runs; the keys that are no parameter go
  to \<open>**kwargs\<close> and are ignored. The message is the interpreter's.
\<close>

fun name_list :: "string list \<Rightarrow> string" where
  "name_list [] = []"
| "name_list [x] = x"
| "name_list [x, y] = x @ '' and '' @ y"
| "name_list xs = join '', '' (butlast xs) @ '', and '' @ last xs"

definition missing_arguments :: "string \<Rightarrow> string list \<Rightarrow> exn" where
  "missing_arguments f names =
     Exc TypeError
       (f @ ''() missing '' @ str_nat (length names) @ '' required positional argument'' @
        (if length names = 1 then [] else ''s'') @ '': '' @
        name_list (map (\<lambda>n. [CHR 0x27] @ n @ [CHR 0x27]) names))"

definition call_run_pyfzf :: "env \<Rightarrow> string list \<Rightarrow> string \<Rightarrow> picker_config \<Rightarrow> world \<Rightarrow> outcome" where
  "call_run_pyfzf env entries title cfg w =
     (case cfg_args cfg of
        None \<Rightarrow> (Inl (missing_arguments ''_run_pyfzf'' [''args'']), w)
      | Some args \<Rightarrow> run_pyfzf env entries title args w)"

definition call_run_shell :: "env \<Rightarrow> string list \<Rightarrow> string \<Rightarrow> picker_config \<Rightarrow> world \<Rightarrow> outcome" where
  "call_run_shell env entries title cfg w =
     (case (cfg_command cfg, cfg_args cfg, cfg_success_exit_codes cfg,
            cfg_ignore_exit_codes cfg) of
        (Some command, Some args, Some success_exit_codes, Some ignore_exit_codes) \<Rightarrow>
          run_shell env entries title command args success_exit_codes ignore_exit_codes
            (cfg_entry_separator cfg) w
      | _ \<Rightarrow>
          (Inl (missing_arguments ''_run_shell''
             ((if cfg_command cfg = None then [''command''] else []) @
              (if cfg_args cfg = None then [''args''] else []) @
              (if cfg_success_exit_codes cfg = None then [''success_exit_codes''] else []) @
              (if cfg_ignore_exit_codes cfg = None then [''ignore_exit_codes''] else []))), w))"

text \<open>
  A value of the table \<open>RUN_STRATEGIES\<close>: a function (an executor, called with the
  entries, the title and the preset), a value that is falsy (\<open>not executor\<close> holds), or
  a truthy value that is not callable.
\<close>

datatype strategy_value =
  Function "string list \<Rightarrow> string \<Rightarrow> picker_config \<Rightarrow> world \<Rightarrow> outcome"
  | Falsy
  | NotCallable

definition RUN_STRATEGIES :: "env \<Rightarrow> (string \<times> strategy_value) list" where
  "RUN_STRATEGIES env =
     [(''pyfzf'', Function (call_run_pyfzf env)), (''shell'', Function (call_run_shell env))]"

subsection \<open>The dispatcher\<close>

text \<open>
  Modelled from the spec: \<open>get_print\<close> is imported from the module \<open>helpers\<close>, which
  is not among the sources. The spec describes the silence flag as controlling whether
  diagnostic messages are printed, and the diagnostic output as written to an error
  stream and suppressible by that flag: \<open>get_print silent\<close> is the function that the
  dispatcher calls with a message and \<open>file=stderr\<close>; it prints the message unless
  \<open>silent\<close> holds.
\<close>

definition get_print :: "bool \<Rightarrow> string \<Rightarrow> world \<Rightarrow> world" where
  "get_print silent msg w = (if silent then w else w\<lparr>sys_stderr := sys_stderr w @ [msg]\<rparr>)"

text \<open>The five diagnostics of \<open>prompt\<close>, as its f-strings build them.\<close>

definition msg_unknown_picker :: "string list \<Rightarrow> string \<Rightarrow> string" where
  "msg_unknown_picker keys picker_id =
     ''Argument '' @ [CHR 0x27] @ picker_id @ [CHR 0x27] @
     '' is not the name of an existing picker preset.'' @
     ''Valid names are: '' @ [CHR 0x27] @ join '', '' keys @ [CHR 0x27]"

definition msg_empty_strategy :: "string \<Rightarrow> string" where
  "msg_empty_strategy picker_id =
     ''Internal Error: Preset picker config '' @ picker_id @ '' '' @
     ''has an empty or null 'strategy' field.''"

definition msg_unknown_strategy :: "string \<Rightarrow> string \<Rightarrow> string" where
  "msg_unknown_strategy picker_id strat_name =
     ''Internal Error: Preset picker config '' @ picker_id @
     ''uses an unknown strategy called '' @ [CHR 0x27] @ strat_name @ [CHR 0x27]"

definition msg_not_callable :: "string \<Rightarrow> string" where
  "msg_not_callable strat_name =
     ''Internal Error: Strategy '' @ [CHR 0x27] @ strat_name @ [CHR 0x27] @
     '' points to a value that is'' @ ''not a function.''"

definition msg_raised :: "env \<Rightarrow> string \<Rightarrow> string \<Rightarrow> string \<Rightarrow> picker_config \<Rightarrow> exn \<Rightarrow> string" where
  "msg_raised env picker_id strat_name prompt_title picker_config e =
     join ''\<newline>''
       [''Picker preset '' @ [CHR 0x27] @ picker_id @ [CHR 0x27] @
        '' (with strategy '' @ [CHR 0x27] @ strat_name @ [CHR 0x27] @ '') '' @
        ''(called with params: title='' @ prompt_title @ '', '' @
        ''config='' @ str_dict env picker_config @ '') raised the following error:'',
        indent (str_exn e) INDENT]"

text \<open>
  \<open>prompt\<close>, with the two module tables as parameters: \<open>pickers\<close> is
  \<open>PICKERS\<close> and \<open>strategies\<close> is \<open>RUN_STRATEGIES\<close>, each a dictionary in
  insertion order. The result is \<open>Inr\<close> of the value returned, or \<open>Inl\<close> of the
  exception that leaves \<open>prompt\<close>. \<open>print_fn\<close> is the source's \<open>_print\<close>. The
  caller gives every argument; the defaults of the source are \<open>DEFAULT_PICKER\<close> for
  the preset, \<open>Select candidate\<close> for the title and \<open>False\<close> for the silence flag.
\<close>

definition prompt_with ::
  "(string \<times> picker_config) list \<Rightarrow> (string \<times> strategy_value) list \<Rightarrow> env \<Rightarrow>
   string list \<Rightarrow> string \<Rightarrow> string \<Rightarrow> bool \<Rightarrow> world \<Rightarrow> outcome" where
  "prompt_with pickers strategies env entries picker_id prompt_title silent w =
     (let print_fn = get_print silent;
          picker_id = strip picker_id
      in case map_of pickers picker_id of
           None \<Rightarrow> (Inr None, print_fn (msg_unknown_picker (map fst pickers) picker_id) w)
         | Some picker_config \<Rightarrow>
             (let strat_name =
                    strip (case cfg_strategy picker_config of None \<Rightarrow> [] | Some s \<Rightarrow> s)
              in if strat_name = [] then
                   (Inr None, print_fn (msg_empty_strategy picker_id) w)
                 else
                   (case map_of strategies strat_name of
                      None \<Rightarrow>
                        (Inr None, print_fn (msg_unknown_strategy picker_id strat_name) w)
                    | Some Falsy \<Rightarrow>
                        (Inr None, print_fn (msg_unknown_strategy picker_id strat_name) w)
                    | Some NotCallable \<Rightarrow>
                        (Inr None, print_fn (msg_not_callable strat_name) w)
                    | Some (Function executor) \<Rightarrow>
                        (case executor entries prompt_title picker_config w of
                           (Inr result, w1) \<Rightarrow> (Inr result, w1)
                         | (Inl e, w1) \<Rightarrow>
                             if is_Exception e then
                               (Inr None,
                                print_fn (msg_raised env picker_id strat_name prompt_title
                                            picker_config e) w1)
                             else (Inl e, w1)))))"

definition prompt :: "env \<Rightarrow> string list \<Rightarrow> string \<Rightarrow> string \<Rightarrow> bool \<Rightarrow> world \<Rightarrow> outcome" where
  "prompt env entries picker_id prompt_title silent w =
     prompt_with PICKERS (RUN_STRATEGIES env) env entries picker_id prompt_title silent w"

section \<open>Concrete worlds and environments for the examples\<close>

text \<open>The state before any call: no client made, nothing launched, nothing printed.\<close>

definition initial_world :: world where
  "initial_world =
     \<lparr>pyfzf_prompt_set = False, run_calls = [], fzf_calls = [], sys_stderr = []\<rparr>"

text \<open>An environment in which every call of \<open>subprocess.run\<close> ends as \<open>r\<close> says, and
  one in which the client's \<open>prompt\<close> ends as \<open>r\<close> says.\<close>

definition env_of_run :: "exn + completed_process \<Rightarrow> env" where
  "env_of_run r =
     \<lparr>subprocess_run = (\<lambda>cmd inp. r),
      import_FzfPrompt = None,
      new_FzfPrompt = None,
      FzfPrompt_prompt = (\<lambda>choices options. Inr []),
      str_dict = (\<lambda>cfg. ''{}'')\<rparr>"

definition env_of_fzf :: "exn + string list \<Rightarrow> env" where
  "env_of_fzf r =
     \<lparr>subprocess_run = (\<lambda>cmd inp. Inl (Exc FileNotFoundError [])),
      import_FzfPrompt = None,
      new_FzfPrompt = None,
      FzfPrompt_prompt = (\<lambda>choices options. r),
      str_dict = (\<lambda>cfg. ''{}'')\<rparr>"

text \<open>A preset that has the key \<open>strategy\<close> only (or no key at all).\<close>

definition preset_with_strategy :: "string option \<Rightarrow> picker_config" where
  "preset_with_strategy s =
     \<lparr>cfg_strategy = s,
      cfg_command = None,
      cfg_args = None,
      cfg_success_exit_codes = None,
      cfg_ignore_exit_codes = None,
      cfg_entry_separator = None\<rparr>"

section \<open>Facts about the library functions\<close>

lemma dropWhile_head: "dropWhile P xs = y # ys \<Longrightarrow> \<not> P y"
  by (metis hd_dropWhile list.sel(1) list.distinct(1))

text \<open>A string strips to the empty string exactly when it is empty or consists of
  whitespace only.\<close>

lemma strip_eq_Nil_iff: "strip s = [] \<longleftrightarrow> (\<forall>c \<in> set s. isspace c)"
proof
  assume "strip s = []"
  then have all: "\<forall>c \<in> set (dropWhile isspace s). isspace c"
    by (simp add: strip_def dropWhile_eq_Nil_conv)
  have "dropWhile isspace s = []"
  proof (cases "dropWhile isspace s")
    case Nil
    then show ?thesis .
  next
    case (Cons y ys)
    then have "\<not> isspace y" by (rule dropWhile_head)
    moreover from Cons all have "isspace y" by simp
    ultimately show ?thesis by simp
  qed
  then show "\<forall>c \<in> set s. isspace c" by (simp add: dropWhile_eq_Nil_conv)
next
  assume "\<forall>c \<in> set s. isspace c"
  then have "dropWhile isspace s = []" by (simp add: dropWhile_eq_Nil_conv)
  then show "strip s = []" by (simp only: strip_def rev.simps dropWhile.simps)
qed

section \<open>The shell executor, branch by branch\<close>

lemma run_shell_blank_command:
  "strip command = [] \<Longrightarrow>
   run_shell env entries title command args success_exit_codes ignore_exit_codes
     entry_separator w =
     (Inl (Exc ValueError
        (''Given 'command' parameter is empty or whitespace only: '{command}'' @
         [CHR 0x27])), w)"
  by (simp add: run_shell_def)

lemma run_shell_launched:
  assumes "strip command \<noteq> []"
  shows "run_shell env entries title command args success_exit_codes ignore_exit_codes
           entry_separator w =
     (let formatted_args =
            map (\<lambda>arg. safe_substitute arg title) (case args of None \<Rightarrow> [] | Some a \<Rightarrow> a);
          full_cmd = strip command # formatted_args;
          stdin = join (case entry_separator of None \<Rightarrow> ''\<newline>'' | Some sep \<Rightarrow> sep) entries;
          w1 = w\<lparr>run_calls := run_calls w @ [(full_cmd, stdin)]\<rparr>
      in case subprocess_run env full_cmd stdin of
           Inl e \<Rightarrow>
             if is_FileNotFoundError e then
               (Inl (Exc FileNotFoundError
                  (''Could not find the binary '' @ [CHR 0x27] @ strip command @ [CHR 0x27] @
                   '' in your PATH.'')), w1)
             else if is_Exception e then
               (Inl (Exc RuntimeError
                  (''Failed to execute shell command: '' @ strip command @ '' '' @
                   join '' '' formatted_args @ [CHR 0x27] @ ''\<newline>'' @
                   indent (str_exn e) INDENT)), w1)
             else (Inl e, w1)
         | Inr proc \<Rightarrow>
             if returncode proc \<in> set (case success_exit_codes of None \<Rightarrow> [] | Some cs \<Rightarrow> cs)
             then (Inr (or_None (strip (stdout proc))), w1)
             else if returncode proc \<in>
                     set (case ignore_exit_codes of None \<Rightarrow> [] | Some cs \<Rightarrow> cs)
             then (Inr None, w1)
             else
               (Inl (Exc RuntimeError
                  (''Failed to execute shell command: '' @ strip command @ '' '' @
                   join '' '' formatted_args @ [CHR 0x27] @ ''\<newline>'' @
                   indent (''Exit code '' @ str_int (returncode proc) @ '': \<newline>'' @
                           (if strip (stderr proc) = [] then ''No error message returned.''
                            else strip (stderr proc))) INDENT)), w1))"
proof (cases "subprocess_run env
    (strip command #
       map (\<lambda>arg. safe_substitute arg title) (case args of None \<Rightarrow> [] | Some a \<Rightarrow> a))
    (join (case entry_separator of None \<Rightarrow> ''\<newline>'' | Some sep \<Rightarrow> sep) entries)")
  case (Inl e)
  with assms show ?thesis
    by (simp add: run_shell_def Let_def)
next
  case (Inr proc)
  with assms show ?thesis
    by (simp add: run_shell_def Let_def or_None_def is_FileNotFoundError_def
        is_Exception_def)
qed

section \<open>Claims about the shell executor\<close>

text \<open>
  C6. For every \<open>command\<close> that is empty or consists of whitespace only (it strips to
  the empty string), the shell executor raises \<open>ValueError\<close> and leaves the world as it
  was: no call of \<open>subprocess.run\<close> is made, so no process is started and nothing is
  written to a standard input.
\<close>

theorem run_shell_blank_command_fails_before_launch:
  assumes "strip command = []"
  shows "(\<exists>m. fst (run_shell env entries title command args success_exit_codes
                    ignore_exit_codes entry_separator w) = Inl (Exc ValueError m)) \<and>
         snd (run_shell env entries title command args success_exit_codes
                ignore_exit_codes entry_separator w) = w"
  using assms by (simp add: run_shell_blank_command)

theorem run_shell_blank_command_fails_before_launch_witness:
  "strip [CHR '' '', CHR 0x09, CHR '' ''] = [] \<and>
   (\<exists>m. fst (run_shell (env_of_run (Inr \<lparr>returncode = 0, stdout = ''a'', stderr = ''''\<rparr>))
               [''a''] ''Pick one'' [CHR '' '', CHR 0x09, CHR '' ''] None (Some [0]) None None
               initial_world) = Inl (Exc ValueError m)) \<and>
   run_calls (snd (run_shell (env_of_run (Inr \<lparr>returncode = 0, stdout = ''a'', stderr = ''''\<rparr>))
                     [''a''] ''Pick one'' [CHR '' '', CHR 0x09, CHR '' ''] None (Some [0]) None
                     None initial_world)) = []"
  using run_shell_blank_command_fails_before_launch
    [where command = "[CHR '' '', CHR 0x09, CHR '' '']"
      and env = "env_of_run (Inr \<lparr>returncode = 0, stdout = ''a'', stderr = ''''\<rparr>)"
      and entries = "[''a'']" and title = "''Pick one''" and args = None
      and success_exit_codes = "Some [0]" and ignore_exit_codes = None
      and entry_separator = None and w = initial_world]
  by (simp add: strip_def isspace_def initial_world_def)

text \<open>
  C10. When \<open>command\<close> strips to the empty string, the message of the
  \<open>ValueError\<close> is a fixed string: it ends with the literal text \<open>'{command}'\<close>,
  not with the value of the command, whatever the command and the other arguments are.
\<close>

theorem run_shell_blank_command_message:
  assumes "strip command = []"
  shows "fst (run_shell env entries title command args success_exit_codes
                ignore_exit_codes entry_separator w) =
         Inl (Exc ValueError
           (''Given 'command' parameter is empty or whitespace only: '{command}'' @
            [CHR 0x27]))"
  using assms by (simp add: run_shell_blank_command)

theorem run_shell_blank_command_message_witness:
  "strip ''   '' = [] \<and>
   fst (run_shell (env_of_run (Inl (Exc FileNotFoundError []))) [] ''Select candidate'' ''   ''
          (Some [''$title'']) (Some [0]) (Some [130]) (Some '' '') initial_world) =
     Inl (Exc ValueError
       (''Given 'command' parameter is empty or whitespace only: '{command}'' @ [CHR 0x27]))"
  using run_shell_blank_command_message [where command = "''   ''"
      and env = "env_of_run (Inl (Exc FileNotFoundError []))" and entries = "[]"
      and title = "''Select candidate''" and args = "Some [''$title'']"
      and success_exit_codes = "Some [0]" and ignore_exit_codes = "Some [130]"
      and entry_separator = "Some '' ''" and w = initial_world]
  by (simp add: strip_def isspace_def)

text \<open>
  C8. When the command is not blank, the shell executor makes exactly one call of
  \<open>subprocess.run\<close>: the argument vector is the stripped command followed by the
  rendered arguments, and the standard input is the entries joined by the entry
  separator, a newline when no separator is given.
\<close>

theorem run_shell_stdin:
  assumes "strip command \<noteq> []"
  shows "run_calls (snd (run_shell env entries title command args success_exit_codes
                  ignore_exit_codes entry_separator w)) =
         run_calls w @
           [(strip command #
               map (\<lambda>arg. safe_substitute arg title) (case args of None \<Rightarrow> [] | Some a \<Rightarrow> a),
             join (case entry_separator of None \<Rightarrow> ''\<newline>'' | Some sep \<Rightarrow> sep) entries)]"
  using assms
  by (simp add: run_shell_launched Let_def split: sum.splits)

theorem run_shell_stdin_witness:
  "strip ''cat'' \<noteq> [] \<and>
   run_calls (snd (run_shell (env_of_run (Inr \<lparr>returncode = 0, stdout = ''b'', stderr = ''''\<rparr>))
                     [''a'', ''b'', ''c''] ''Pick one'' ''cat'' None (Some [0]) None (Some '' '')
                     initial_world)) = [([''cat''], ''a b c'')] \<and>
   run_calls (snd (run_shell (env_of_run (Inr \<lparr>returncode = 0, stdout = ''b'', stderr = ''''\<rparr>))
                     [''a'', ''b'', ''c''] ''Pick one'' ''cat'' None (Some [0]) None None
                     initial_world)) = [([''cat''], ''a\<newline>b\<newline>c'')]"
  using
    run_shell_stdin [where command = "''cat''"
      and env = "env_of_run (Inr \<lparr>returncode = 0, stdout = ''b'', stderr = ''''\<rparr>)"
      and entries = "[''a'', ''b'', ''c'']" and title = "''Pick one''" and args = None
      and success_exit_codes = "Some [0]" and ignore_exit_codes = None
      and entry_separator = "Some '' ''" and w = initial_world]
    run_shell_stdin [where command = "''cat''"
      and env = "env_of_run (Inr \<lparr>returncode = 0, stdout = ''b'', stderr = ''''\<rparr>)"
      and entries = "[''a'', ''b'', ''c'']" and title = "''Pick one''" and args = None
      and success_exit_codes = "Some [0]" and ignore_exit_codes = None
      and entry_separator = None and w = initial_world]
  by (simp add: strip_def isspace_def initial_world_def)

text \<open>
  C5. When \<open>subprocess.run\<close> raises \<open>FileNotFoundError\<close>, the shell executor raises
  a \<open>FileNotFoundError\<close> of its own whose message names the stripped command; the
  exception that leaves the executor is this one, not the \<open>RuntimeError\<close> of the
  generic handler.
\<close>

theorem run_shell_executable_not_found:
  assumes "strip command \<noteq> []"
    and "subprocess_run env
           (strip command #
              map (\<lambda>arg. safe_substitute arg title) (case args of None \<Rightarrow> [] | Some a \<Rightarrow> a))
           (join (case entry_separator of None \<Rightarrow> ''\<newline>'' | Some sep \<Rightarrow> sep) entries) =
         Inl e"
    and "is_FileNotFoundError e"
  shows "fst (run_shell env entries title command args success_exit_codes ignore_exit_codes
                entry_separator w) =
         Inl (Exc FileNotFoundError
           (''Could not find the binary '' @ [CHR 0x27] @ strip command @ [CHR 0x27] @
            '' in your PATH.''))"
  using assms by (simp add: run_shell_launched Let_def)

theorem run_shell_executable_not_found_witness:
  "strip '' fzf '' \<noteq> [] \<and>
   is_FileNotFoundError (Exc FileNotFoundError ''[Errno 2] No such file or directory'') \<and>
   fst (run_shell
          (env_of_run (Inl (Exc FileNotFoundError ''[Errno 2] No such file or directory'')))
          [''a'', ''b''] ''Pick one'' '' fzf '' (Some [''--prompt'', ''$title'']) (Some [0])
          (Some [130]) (Some '' '') initial_world) =
     Inl (Exc FileNotFoundError ''Could not find the binary 'fzf' in your PATH.'')"
  using run_shell_executable_not_found [where command = "'' fzf ''"
      and env = "env_of_run (Inl (Exc FileNotFoundError ''[Errno 2] No such file or directory''))"
      and entries = "[''a'', ''b'']" and title = "''Pick one''"
      and args = "Some [''--prompt'', ''$title'']"
      and success_exit_codes = "Some [0]" and ignore_exit_codes = "Some [130]"
      and entry_separator = "Some '' ''" and w = initial_world
      and e = "Exc FileNotFoundError ''[Errno 2] No such file or directory''"]
  by (simp add: strip_def isspace_def env_of_run_def is_FileNotFoundError_def)

text \<open>
  C3, as the claim states it, fails where the two sets of exit codes overlap: the
  success set is looked at first. With the success set and the ignore set both \<open>[0]\<close>,
  exit code 0 and a non-empty standard output, the exit code is in the ignore set and
  the result is the selected string, not the no-selection value.
\<close>

theorem run_shell_ignore_code_counterexample:
  "(0::int) \<in> set [0] \<and>
   fst (run_shell (env_of_run (Inr \<lparr>returncode = 0, stdout = ''libfoo.so.6'', stderr = ''''\<rparr>))
          [''libfoo.so.6''] ''Pick one'' ''fzf'' None (Some [0]) (Some [0]) None
          initial_world) =
     Inr (Some ''libfoo.so.6'')"
  by (simp add: run_shell_def Let_def strip_def isspace_def env_of_run_def or_None_def)

text \<open>
  C3, amended. For every process the shell executor ran to completion: if the exit code
  is in the success set, the result is the stripped standard output, or the no-selection
  value when that is empty; if the exit code is not in the success set and is in the
  ignore set, the result is the no-selection value; no exception is raised in either
  case. The shell presets of \<open>PICKERS\<close> are \<open>fzf\<close>, with success code 0 and ignore code
  130, and \<open>zenity\<close>, with success code 0 and ignore code 1.
\<close>

theorem run_shell_exit_codes:
  assumes "strip command \<noteq> []"
    and "subprocess_run env
           (strip command #
              map (\<lambda>arg. safe_substitute arg title) (case args of None \<Rightarrow> [] | Some a \<Rightarrow> a))
           (join (case entry_separator of None \<Rightarrow> ''\<newline>'' | Some sep \<Rightarrow> sep) entries) =
         Inr proc"
  shows "(returncode proc \<in> set (case success_exit_codes of None \<Rightarrow> [] | Some cs \<Rightarrow> cs) \<longrightarrow>
            fst (run_shell env entries title command args success_exit_codes ignore_exit_codes
                   entry_separator w) =
            Inr (if strip (stdout proc) = [] then None else Some (strip (stdout proc)))) \<and>
         (returncode proc \<notin> set (case success_exit_codes of None \<Rightarrow> [] | Some cs \<Rightarrow> cs) \<and>
          returncode proc \<in> set (case ignore_exit_codes of None \<Rightarrow> [] | Some cs \<Rightarrow> cs) \<longrightarrow>
            fst (run_shell env entries title command args success_exit_codes ignore_exit_codes
                   entry_separator w) = Inr None) \<and>
         map (\<lambda>(name, cfg). (name, cfg_success_exit_codes cfg, cfg_ignore_exit_codes cfg))
             (filter (\<lambda>(name, cfg). cfg_strategy cfg = Some ''shell'') PICKERS) =
           [(''fzf'', Some (Some [0]), Some (Some [130])),
            (''zenity'', Some (Some [0]), Some (Some [1]))]"
proof (intro conjI impI)
  assume "returncode proc \<in> set (case success_exit_codes of None \<Rightarrow> [] | Some cs \<Rightarrow> cs)"
  with assms show "fst (run_shell env entries title command args success_exit_codes
      ignore_exit_codes entry_separator w) =
      Inr (if strip (stdout proc) = [] then None else Some (strip (stdout proc)))"
    by (simp add: run_shell_launched Let_def or_None_def)
next
  assume "returncode proc \<notin> set (case success_exit_codes of None \<Rightarrow> [] | Some cs \<Rightarrow> cs) \<and>
          returncode proc \<in> set (case ignore_exit_codes of None \<Rightarrow> [] | Some cs \<Rightarrow> cs)"
  with assms show "fst (run_shell env entries title command args success_exit_codes
      ignore_exit_codes entry_separator w) = Inr None"
    by (cases success_exit_codes; cases ignore_exit_codes)
       (simp_all add: run_shell_launched Let_def)
next
  show "map (\<lambda>(name, cfg). (name, cfg_success_exit_codes cfg, cfg_ignore_exit_codes cfg))
             (filter (\<lambda>(name, cfg). cfg_strategy cfg = Some ''shell'') PICKERS) =
           [(''fzf'', Some (Some [0]), Some (Some [130])),
            (''zenity'', Some (Some [0]), Some (Some [1]))]"
    by (simp add: PICKERS_def)
qed

theorem run_shell_exit_codes_witness:
  "strip ''fzf'' \<noteq> [] \<and>
   (0::int) \<in> set [0] \<and>
   fst (run_shell
          (env_of_run (Inr \<lparr>returncode = 0, stdout = ''libfoo.so.6\<newline>'', stderr = ''''\<rparr>))
          [''libfoo.so.6'', ''libbar.so''] ''Pick one'' ''fzf''
          (Some [''--cycle'', ''--prompt'', ''$title'']) (Some [0]) (Some [130]) (Some '' '')
          initial_world) = Inr (Some ''libfoo.so.6'') \<and>
   (130::int) \<notin> set [0] \<and> (130::int) \<in> set [130] \<and>
   fst (run_shell
          (env_of_run (Inr \<lparr>returncode = 130, stdout = '''', stderr = ''''\<rparr>))
          [''libfoo.so.6'', ''libbar.so''] ''Pick one'' ''fzf''
          (Some [''--cycle'', ''--prompt'', ''$title'']) (Some [0]) (Some [130]) (Some '' '')
          initial_world) = Inr None"
  using
    run_shell_exit_codes [where command = "''fzf''"
      and env = "env_of_run (Inr \<lparr>returncode = 0, stdout = ''libfoo.so.6\<newline>'', stderr = ''''\<rparr>)"
      and entries = "[''libfoo.so.6'', ''libbar.so'']" and title = "''Pick one''"
      and args = "Some [''--cycle'', ''--prompt'', ''$title'']"
      and success_exit_codes = "Some [0]" and ignore_exit_codes = "Some [130]"
      and entry_separator = "Some '' ''" and w = initial_world
      and proc = "\<lparr>returncode = 0, stdout = ''libfoo.so.6\<newline>'', stderr = ''''\<rparr>"]
    run_shell_exit_codes [where command = "''fzf''"
      and env = "env_of_run (Inr \<lparr>returncode = 130, stdout = '''', stderr = ''''\<rparr>)"
      and entries = "[''libfoo.so.6'', ''libbar.so'']" and title = "''Pick one''"
      and args = "Some [''--cycle'', ''--prompt'', ''$title'']"
      and success_exit_codes = "Some [0]" and ignore_exit_codes = "Some [130]"
      and entry_separator = "Some '' ''" and w = initial_world
      and proc = "\<lparr>returncode = 130, stdout = '''', stderr = ''''\<rparr>"]
  by (simp add: strip_def isspace_def env_of_run_def)

section \<open>Rendering of argument templates\<close>
















section \<open>The embedded-prompt executor\<close>

text \<open>
  C9. When the import and the construction of the client succeed (or the client exists
  already) and the client's \<open>prompt\<close> returns a list, the embedded-prompt executor has
  called it with the entries and with the option string \<open>shlex.join\<close> builds from the
  extra arguments followed by the title with \<open>> \<close> appended; it returns the first
  element of the list, and the no-selection value when the list is empty.
\<close>

theorem run_pyfzf_options_and_result:
  assumes "import_FzfPrompt env = None"
    and "pyfzf_prompt_set w \<or> new_FzfPrompt env = None"
    and "FzfPrompt_prompt env entries
           (shlex_join ((case args of None \<Rightarrow> [] | Some a \<Rightarrow> a) @ [title @ ''> ''])) =
         Inr result"
  shows "fst (run_pyfzf env entries title args w) =
           Inr (case result of [] \<Rightarrow> None | r # rs \<Rightarrow> Some r) \<and>
         fzf_calls (snd (run_pyfzf env entries title args w)) =
           fzf_calls w @
             [(entries,
               shlex_join ((case args of None \<Rightarrow> [] | Some a \<Rightarrow> a) @ [title @ ''> '']))]"
proof (cases result)
  case Nil
  with assms show ?thesis
    by (auto simp: run_pyfzf_def Let_def)
next
  case (Cons r rs)
  with assms show ?thesis
    by (auto simp: run_pyfzf_def Let_def)
qed

theorem run_pyfzf_options_and_result_witness:
  "import_FzfPrompt (env_of_fzf (Inr [''libfoo.so.6'', ''libbar.so''])) = None \<and>
   new_FzfPrompt (env_of_fzf (Inr [''libfoo.so.6'', ''libbar.so''])) = None \<and>
   fst (run_pyfzf (env_of_fzf (Inr [''libfoo.so.6'', ''libbar.so'']))
          [''libbar.so'', ''libfoo.so.6''] ''Select candidate'' (Some [''--cycle'', ''--prompt''])
          initial_world) = Inr (Some ''libfoo.so.6'') \<and>
   fzf_calls (snd (run_pyfzf (env_of_fzf (Inr [''libfoo.so.6'', ''libbar.so'']))
          [''libbar.so'', ''libfoo.so.6''] ''Select candidate'' (Some [''--cycle'', ''--prompt''])
          initial_world)) =
     [([''libbar.so'', ''libfoo.so.6''],
       ''--cycle --prompt 'Select candidate> '' @ [CHR 0x27])] \<and>
   fst (run_pyfzf (env_of_fzf (Inr []))
          [''libbar.so'', ''libfoo.so.6''] ''Select candidate'' (Some [''--cycle'', ''--prompt''])
          initial_world) = Inr None"
  using
    run_pyfzf_options_and_result [where env = "env_of_fzf (Inr [''libfoo.so.6'', ''libbar.so''])"
      and w = initial_world and entries = "[''libbar.so'', ''libfoo.so.6'']"
      and args = "Some [''--cycle'', ''--prompt'']" and title = "''Select candidate''"
      and result = "[''libfoo.so.6'', ''libbar.so'']"]
    run_pyfzf_options_and_result [where env = "env_of_fzf (Inr [])"
      and w = initial_world and entries = "[''libbar.so'', ''libfoo.so.6'']"
      and args = "Some [''--cycle'', ''--prompt'']" and title = "''Select candidate''"
      and result = "[]"]
  by (simp add: env_of_fzf_def initial_world_def shlex_join_def quote_def safe_char_def)

section \<open>The dispatcher, branch by branch\<close>

lemma prompt_with_unknown_picker:
  assumes "map_of pickers (strip picker_id) = None"
  shows "prompt_with pickers strategies env entries picker_id prompt_title silent w =
         (Inr None, get_print silent (msg_unknown_picker (map fst pickers) (strip picker_id)) w)"
  using assms by (simp add: prompt_with_def Let_def)

lemma prompt_with_empty_strategy:
  assumes "map_of pickers (strip picker_id) = Some cfg"
    and "strip (case cfg_strategy cfg of None \<Rightarrow> [] | Some s \<Rightarrow> s) = []"
  shows "prompt_with pickers strategies env entries picker_id prompt_title silent w =
         (Inr None, get_print silent (msg_empty_strategy (strip picker_id)) w)"
  using assms by (simp add: prompt_with_def Let_def)

lemma prompt_with_unknown_strategy:
  assumes "map_of pickers (strip picker_id) = Some cfg"
    and "strip (case cfg_strategy cfg of None \<Rightarrow> [] | Some s \<Rightarrow> s) = name"
    and "name \<noteq> []"
    and "map_of strategies name = None \<or> map_of strategies name = Some Falsy"
  shows "prompt_with pickers strategies env entries picker_id prompt_title silent w =
         (Inr None, get_print silent (msg_unknown_strategy (strip picker_id) name) w)"
  using assms by (auto simp: prompt_with_def Let_def)

lemma prompt_with_not_callable:
  assumes "map_of pickers (strip picker_id) = Some cfg"
    and "strip (case cfg_strategy cfg of None \<Rightarrow> [] | Some s \<Rightarrow> s) = name"
    and "name \<noteq> []"
    and "map_of strategies name = Some NotCallable"
  shows "prompt_with pickers strategies env entries picker_id prompt_title silent w =
         (Inr None, get_print silent (msg_not_callable name) w)"
  using assms by (auto simp: prompt_with_def Let_def)

lemma prompt_with_executor:
  assumes "map_of pickers (strip picker_id) = Some cfg"
    and "strip (case cfg_strategy cfg of None \<Rightarrow> [] | Some s \<Rightarrow> s) = name"
    and "name \<noteq> []"
    and "map_of strategies name = Some (Function executor)"
  shows "prompt_with pickers strategies env entries picker_id prompt_title silent w =
         (case executor entries prompt_title cfg w of
            (Inr result, w1) \<Rightarrow> (Inr result, w1)
          | (Inl e, w1) \<Rightarrow>
              if is_Exception e then
                (Inr None,
                 get_print silent
                   (msg_raised env (strip picker_id) name prompt_title cfg e) w1)
              else (Inl e, w1))"
  using assms by (auto simp: prompt_with_def Let_def)

text \<open>The branches are all there are: an exception leaves \<open>prompt\<close> only when an
  executor of the table raised it and it is no instance of \<open>Exception\<close>.\<close>

lemma prompt_with_Inl:
  assumes "fst (prompt_with pickers strategies env entries picker_id prompt_title silent w) =
           Inl e"
  shows "\<not> is_Exception e \<and>
         (\<exists>name executor cfg w1.
            map_of strategies name = Some (Function executor) \<and>
            executor entries prompt_title cfg w = (Inl e, w1))"
proof (cases "map_of pickers (strip picker_id)")
  case None
  with assms show ?thesis by (simp add: prompt_with_unknown_picker)
next
  case (Some cfg)
  define name where "name = strip (case cfg_strategy cfg of None \<Rightarrow> [] | Some s \<Rightarrow> s)"
  show ?thesis
  proof (cases "name = []")
    case True
    with assms Some show ?thesis
      by (simp add: prompt_with_empty_strategy name_def)
  next
    case nonempty: False
    show ?thesis
    proof (cases "map_of strategies name")
      case None
      with assms Some nonempty show ?thesis
        by (simp add: prompt_with_unknown_strategy [where name = name] name_def)
    next
      case found: (Some v)
      show ?thesis
      proof (cases v)
        case Falsy
        with assms Some nonempty found show ?thesis
          by (simp add: prompt_with_unknown_strategy [where name = name] name_def)
      next
        case NotCallable
        with assms Some nonempty found show ?thesis
          by (simp add: prompt_with_not_callable [where name = name] name_def)
      next
        case (Function executor)
        obtain res w1 where run: "executor entries prompt_title cfg w = (res, w1)"
          by (cases "executor entries prompt_title cfg w")
        have call: "prompt_with pickers strategies env entries picker_id prompt_title silent w =
            (case executor entries prompt_title cfg w of
               (Inr result, w1) \<Rightarrow> (Inr result, w1)
             | (Inl e, w1) \<Rightarrow>
                 if is_Exception e then
                   (Inr None,
                    get_print silent
                      (msg_raised env (strip picker_id) name prompt_title cfg e) w1)
                 else (Inl e, w1))"
          using Some nonempty found Function
          by (intro prompt_with_executor) (simp_all add: name_def)
        show ?thesis
        proof (cases res)
          case (Inr r)
          with assms call run show ?thesis by simp
        next
          case (Inl e')
          with assms call run have "\<not> is_Exception e'" and "e' = e"
            by (auto split: if_splits)
          with run Inl found Function show ?thesis by blast
        qed
      qed
    qed
  qed
qed

text \<open>What the two executors of the module raise is an instance of \<open>Exception\<close>,
  unless it comes from one of the calls the module makes to the outside.\<close>

lemma run_shell_Inl:
  assumes "run_shell env entries title command args success_exit_codes ignore_exit_codes
             entry_separator w = (Inl e, w1)"
    and "\<not> is_Exception e"
  shows "\<exists>cmd inp. subprocess_run env cmd inp = Inl e"
proof (cases "strip command = []")
  case True
  with assms show ?thesis
    by (auto simp: run_shell_blank_command is_Exception_def)
next
  case False
  let ?cmd = "strip command #
    map (\<lambda>arg. safe_substitute arg title) (case args of None \<Rightarrow> [] | Some a \<Rightarrow> a)"
  let ?inp = "join (case entry_separator of None \<Rightarrow> ''\<newline>'' | Some sep \<Rightarrow> sep) entries"
  show ?thesis
  proof (cases "subprocess_run env ?cmd ?inp")
    case (Inl e')
    with assms False have "e' = e"
      by (auto simp: run_shell_launched Let_def is_Exception_def split: if_splits)
    with Inl show ?thesis by blast
  next
    case (Inr proc)
    with assms False show ?thesis
      by (auto simp: run_shell_launched Let_def is_Exception_def split: if_splits)
  qed
qed

lemma missing_arguments_is_Exception: "is_Exception (missing_arguments f names)"
  by (simp add: missing_arguments_def is_Exception_def)

lemma call_run_shell_Inl:
  assumes "call_run_shell env entries title cfg w = (Inl e, w1)"
    and "\<not> is_Exception e"
  shows "\<exists>cmd inp. subprocess_run env cmd inp = Inl e"
proof (cases "cfg_command cfg")
  case None
  with assms show ?thesis
    using missing_arguments_is_Exception by (auto simp: call_run_shell_def)
next
  case command: (Some command)
  show ?thesis
  proof (cases "cfg_args cfg")
    case None
    with assms command show ?thesis
      using missing_arguments_is_Exception by (auto simp: call_run_shell_def)
  next
    case args: (Some args)
    show ?thesis
    proof (cases "cfg_success_exit_codes cfg")
      case None
      with assms command args show ?thesis
        using missing_arguments_is_Exception by (auto simp: call_run_shell_def)
    next
      case succ: (Some success_exit_codes)
      show ?thesis
      proof (cases "cfg_ignore_exit_codes cfg")
        case None
        with assms command args succ show ?thesis
          using missing_arguments_is_Exception by (auto simp: call_run_shell_def)
      next
        case (Some ignore_exit_codes)
        with assms command args succ
        have "run_shell env entries title command args success_exit_codes ignore_exit_codes
                (cfg_entry_separator cfg) w = (Inl e, w1)"
          by (simp add: call_run_shell_def)
        then show ?thesis using assms(2) by (rule run_shell_Inl)
      qed
    qed
  qed
qed

lemma call_run_pyfzf_Inl:
  assumes "call_run_pyfzf env entries title cfg w = (Inl e, w1)"
    and "\<not> is_Exception e"
  shows "import_FzfPrompt env = Some e \<or> new_FzfPrompt env = Some e \<or>
         (\<exists>choices options. FzfPrompt_prompt env choices options = Inl e)"
proof (cases "cfg_args cfg")
  case None
  with assms show ?thesis
    using missing_arguments_is_Exception by (auto simp: call_run_pyfzf_def)
next
  case (Some args)
  with assms have "run_pyfzf env entries title args w = (Inl e, w1)"
    by (simp add: call_run_pyfzf_def)
  then show ?thesis
    by (auto simp: run_pyfzf_def Let_def split: option.splits if_splits sum.splits list.splits)
qed

lemma join_sublist: "k \<in> set ks \<Longrightarrow> sublist k (join sep ks)"
proof (induction sep ks rule: join.induct)
  case (1 sep)
  then show ?case by simp
next
  case (2 sep x)
  then show ?case by simp
next
  case (3 sep x y ys)
  show ?case
  proof (cases "k = x")
    case True
    then show ?thesis by simp
  next
    case False
    with 3 have "sublist k (join sep (y # ys))" by simp
    then obtain ps ss where "join sep (y # ys) = ps @ k @ ss"
      by (auto simp: sublist_def)
    then have "join sep (x # y # ys) = (x @ sep @ ps) @ k @ ss" by simp
    then show ?thesis unfolding sublist_def by blast
  qed
qed

section \<open>Claims about the dispatcher\<close>

text \<open>
  C1, as the claim states it, fails for an exception that is no instance of
  \<open>Exception\<close>: neither handler of the module catches it. With the preset \<open>zenity\<close>
  and a \<open>subprocess.run\<close> that raises \<open>KeyboardInterrupt\<close>, the exception leaves
  \<open>prompt\<close>.
\<close>

theorem prompt_KeyboardInterrupt_counterexample:
  "fst (prompt (env_of_run (Inl (Exc KeyboardInterrupt []))) [''libfoo.so.6'', ''libbar.so'']
          ''zenity'' ''Select candidate'' False initial_world) =
     Inl (Exc KeyboardInterrupt [])"
  by (simp add: prompt_def prompt_with_def PICKERS_def RUN_STRATEGIES_def call_run_shell_def
      run_shell_def Let_def strip_def isspace_def env_of_run_def is_FileNotFoundError_def
      is_Exception_def)

text \<open>
  C1, amended. For every candidate list, preset identifier, title and silence flag,
  \<open>prompt\<close> either returns a value, a selected string or the no-selection value, or
  lets an exception through that is no instance of \<open>Exception\<close> (such as
  \<open>KeyboardInterrupt\<close> or \<open>SystemExit\<close>) and that one of the calls to the outside
  raised: \<open>subprocess.run\<close>, the import or the constructor of the client, or the
  client's \<open>prompt\<close>. No exception that is an instance of \<open>Exception\<close> leaves
  \<open>prompt\<close>.
\<close>

theorem prompt_result_contract:
  "(\<exists>r. fst (prompt env entries picker_id prompt_title silent w) = Inr r) \<or>
   (\<exists>e. fst (prompt env entries picker_id prompt_title silent w) = Inl e \<and>
        \<not> is_Exception e \<and>
        ((\<exists>cmd inp. subprocess_run env cmd inp = Inl e) \<or>
         import_FzfPrompt env = Some e \<or> new_FzfPrompt env = Some e \<or>
         (\<exists>choices options. FzfPrompt_prompt env choices options = Inl e)))"
proof (cases "fst (prompt env entries picker_id prompt_title silent w)")
  case (Inr r)
  then show ?thesis by blast
next
  case (Inl e)
  then have "fst (prompt_with PICKERS (RUN_STRATEGIES env) env entries picker_id
                    prompt_title silent w) = Inl e"
    by (simp add: prompt_def)
  then obtain name executor cfg w1 where ne: "\<not> is_Exception e"
    and tab: "map_of (RUN_STRATEGIES env) name = Some (Function executor)"
    and run: "executor entries prompt_title cfg w = (Inl e, w1)"
    using prompt_with_Inl by blast
  from tab have "executor = call_run_pyfzf env \<or> executor = call_run_shell env"
    by (auto simp: RUN_STRATEGIES_def split: if_splits)
  with run ne have "(\<exists>cmd inp. subprocess_run env cmd inp = Inl e) \<or>
        import_FzfPrompt env = Some e \<or> new_FzfPrompt env = Some e \<or>
        (\<exists>choices options. FzfPrompt_prompt env choices options = Inl e)"
    using call_run_shell_Inl [of env entries prompt_title cfg w e w1]
      call_run_pyfzf_Inl [of env entries prompt_title cfg w e w1]
    by blast
  with Inl ne show ?thesis by blast
qed

text \<open>
  C2, as the claim states it, fails when the silence flag is set: the diagnostic goes
  through the printer that \<open>get_print\<close> returns, and that prints nothing then. With an
  unknown preset identifier and \<open>silent\<close> true, \<open>prompt\<close> returns the no-selection
  value and nothing is written to the error stream.
\<close>

theorem prompt_silent_counterexample:
  "map_of PICKERS (strip ''nope'') = None \<and>
   fst (prompt (env_of_run (Inl (Exc FileNotFoundError []))) [''libfoo.so.6''] ''nope''
          ''Select candidate'' True initial_world) = Inr None \<and>
   sys_stderr (snd (prompt (env_of_run (Inl (Exc FileNotFoundError []))) [''libfoo.so.6'']
          ''nope'' ''Select candidate'' True initial_world)) = []"
  by (simp add: prompt_def prompt_with_def PICKERS_def Let_def strip_def isspace_def
      get_print_def initial_world_def)

text \<open>
  C2, amended. For every configuration error \<open>prompt\<close> returns the no-selection value,
  raises nothing, calls no executor and changes nothing but the error stream, to which it
  writes one diagnostic unless the silence flag is set (then it writes nothing). The
  errors are: a stripped preset identifier that is no key of the preset table, for which
  the diagnostic contains every key of the table; a preset whose \<open>strategy\<close> is absent,
  empty or whitespace only; a strategy name that is no key of the strategy table or whose
  value there is falsy; and a strategy name whose value is not callable.
\<close>

theorem prompt_configuration_errors:
  "(map_of pickers (strip picker_id) = None \<longrightarrow>
      prompt_with pickers strategies env entries picker_id prompt_title silent w =
        (Inr None,
         if silent then w
         else w\<lparr>sys_stderr := sys_stderr w @
                  [msg_unknown_picker (map fst pickers) (strip picker_id)]\<rparr>) \<and>
      (\<forall>key \<in> set (map fst pickers).
         sublist key (msg_unknown_picker (map fst pickers) (strip picker_id)))) \<and>
   (map_of pickers (strip picker_id) = Some cfg \<and>
    strip (case cfg_strategy cfg of None \<Rightarrow> [] | Some s \<Rightarrow> s) = [] \<longrightarrow>
      prompt_with pickers strategies env entries picker_id prompt_title silent w =
        (Inr None,
         if silent then w
         else w\<lparr>sys_stderr := sys_stderr w @ [msg_empty_strategy (strip picker_id)]\<rparr>)) \<and>
   (map_of pickers (strip picker_id) = Some cfg \<and>
    strip (case cfg_strategy cfg of None \<Rightarrow> [] | Some s \<Rightarrow> s) = name \<and> name \<noteq> [] \<and>
    (map_of strategies name = None \<or> map_of strategies name = Some Falsy) \<longrightarrow>
      prompt_with pickers strategies env entries picker_id prompt_title silent w =
        (Inr None,
         if silent then w
         else w\<lparr>sys_stderr := sys_stderr w @
                  [msg_unknown_strategy (strip picker_id) name]\<rparr>)) \<and>
   (map_of pickers (strip picker_id) = Some cfg \<and>
    strip (case cfg_strategy cfg of None \<Rightarrow> [] | Some s \<Rightarrow> s) = name \<and> name \<noteq> [] \<and>
    map_of strategies name = Some NotCallable \<longrightarrow>
      prompt_with pickers strategies env entries picker_id prompt_title silent w =
        (Inr None,
         if silent then w
         else w\<lparr>sys_stderr := sys_stderr w @ [msg_not_callable name]\<rparr>))"
proof (intro conjI impI ballI)
  assume "map_of pickers (strip picker_id) = None"
  then show "prompt_with pickers strategies env entries picker_id prompt_title silent w =
        (Inr None,
         if silent then w
         else w\<lparr>sys_stderr := sys_stderr w @
                  [msg_unknown_picker (map fst pickers) (strip picker_id)]\<rparr>)"
    by (simp add: prompt_with_unknown_picker get_print_def)
next
  fix key
  assume "key \<in> set (map fst pickers)"
  then have "sublist key (join '', '' (map fst pickers))"
    by (rule join_sublist)
  then obtain ps ss where "join '', '' (map fst pickers) = ps @ key @ ss"
    by (auto simp: sublist_def)
  then have "\<exists>ps' ss'. msg_unknown_picker (map fst pickers) (strip picker_id) = ps' @ key @ ss'"
    unfolding msg_unknown_picker_def
    by (metis append.assoc)
  then show "sublist key (msg_unknown_picker (map fst pickers) (strip picker_id))"
    by (simp add: sublist_def)
next
  assume "map_of pickers (strip picker_id) = Some cfg \<and>
    strip (case cfg_strategy cfg of None \<Rightarrow> [] | Some s \<Rightarrow> s) = []"
  then show "prompt_with pickers strategies env entries picker_id prompt_title silent w =
        (Inr None,
         if silent then w
         else w\<lparr>sys_stderr := sys_stderr w @ [msg_empty_strategy (strip picker_id)]\<rparr>)"
    by (simp add: prompt_with_empty_strategy [where cfg = cfg] get_print_def)
next
  assume "map_of pickers (strip picker_id) = Some cfg \<and>
    strip (case cfg_strategy cfg of None \<Rightarrow> [] | Some s \<Rightarrow> s) = name \<and> name \<noteq> [] \<and>
    (map_of strategies name = None \<or> map_of strategies name = Some Falsy)"
  then show "prompt_with pickers strategies env entries picker_id prompt_title silent w =
        (Inr None,
         if silent then w
         else w\<lparr>sys_stderr := sys_stderr w @
                  [msg_unknown_strategy (strip picker_id) name]\<rparr>)"
    using prompt_with_unknown_strategy [where cfg = cfg and name = name
        and pickers = pickers and picker_id = picker_id and strategies = strategies]
    by (simp add: get_print_def)
next
  assume "map_of pickers (strip picker_id) = Some cfg \<and>
    strip (case cfg_strategy cfg of None \<Rightarrow> [] | Some s \<Rightarrow> s) = name \<and> name \<noteq> [] \<and>
    map_of strategies name = Some NotCallable"
  then show "prompt_with pickers strategies env entries picker_id prompt_title silent w =
        (Inr None,
         if silent then w
         else w\<lparr>sys_stderr := sys_stderr w @ [msg_not_callable name]\<rparr>)"
    using prompt_with_not_callable [where cfg = cfg and name = name
        and pickers = pickers and picker_id = picker_id and strategies = strategies]
    by (simp add: get_print_def)
qed

theorem prompt_configuration_errors_witness:
  "map_of PICKERS (strip '' nope '') = None \<and>
   prompt_with PICKERS (RUN_STRATEGIES (env_of_run (Inl (Exc FileNotFoundError []))))
       (env_of_run (Inl (Exc FileNotFoundError []))) [''libfoo.so.6''] '' nope ''
       ''Select candidate'' False initial_world =
     (Inr None,
      initial_world\<lparr>sys_stderr :=
        [''Argument 'nope' is not the name of an existing picker preset.'' @
         ''Valid names are: 'default, fzf, zenity'' @ [CHR 0x27]]\<rparr>) \<and>
   sublist ''default'' (msg_unknown_picker (map fst PICKERS) ''nope'') \<and>
   sublist ''fzf'' (msg_unknown_picker (map fst PICKERS) ''nope'') \<and>
   sublist ''zenity'' (msg_unknown_picker (map fst PICKERS) ''nope'') \<and>
   strip (case cfg_strategy (preset_with_strategy (Some ''  '')) of
            None \<Rightarrow> [] | Some s \<Rightarrow> s) = [] \<and>
   prompt_with [(''blank'', preset_with_strategy (Some ''  ''))]
       (RUN_STRATEGIES (env_of_run (Inl (Exc FileNotFoundError []))))
       (env_of_run (Inl (Exc FileNotFoundError []))) [''libfoo.so.6''] ''blank''
       ''Select candidate'' False initial_world =
     (Inr None,
      initial_world\<lparr>sys_stderr :=
        [''Internal Error: Preset picker config blank '' @
         ''has an empty or null 'strategy' field.'']\<rparr>) \<and>
   map_of (RUN_STRATEGIES (env_of_run (Inl (Exc FileNotFoundError [])))) ''curses'' = None \<and>
   prompt_with [(''odd'', preset_with_strategy (Some ''curses''))]
       (RUN_STRATEGIES (env_of_run (Inl (Exc FileNotFoundError []))))
       (env_of_run (Inl (Exc FileNotFoundError []))) [''libfoo.so.6''] ''odd''
       ''Select candidate'' True initial_world =
     (Inr None, initial_world) \<and>
   prompt_with [(''odd'', preset_with_strategy (Some ''curses''))] [(''curses'', NotCallable)]
       (env_of_run (Inl (Exc FileNotFoundError []))) [''libfoo.so.6''] ''odd''
       ''Select candidate'' False initial_world =
     (Inr None,
      initial_world\<lparr>sys_stderr :=
        [''Internal Error: Strategy 'curses' points to a value that is'' @
         ''not a function.'']\<rparr>)"
  using
    prompt_configuration_errors [where pickers = PICKERS and picker_id = "'' nope ''"
      and strategies = "RUN_STRATEGIES (env_of_run (Inl (Exc FileNotFoundError [])))"
      and env = "env_of_run (Inl (Exc FileNotFoundError []))" and entries = "[''libfoo.so.6'']"
      and prompt_title = "''Select candidate''" and silent = False and w = initial_world]
    prompt_configuration_errors [where pickers = "[(''blank'', preset_with_strategy (Some ''  ''))]"
      and picker_id = "''blank''" and cfg = "preset_with_strategy (Some ''  '')"
      and strategies = "RUN_STRATEGIES (env_of_run (Inl (Exc FileNotFoundError [])))"
      and env = "env_of_run (Inl (Exc FileNotFoundError []))" and entries = "[''libfoo.so.6'']"
      and prompt_title = "''Select candidate''" and silent = False and w = initial_world]
    prompt_configuration_errors [where pickers = "[(''odd'', preset_with_strategy (Some ''curses''))]"
      and picker_id = "''odd''" and cfg = "preset_with_strategy (Some ''curses'')"
      and name = "''curses''"
      and strategies = "RUN_STRATEGIES (env_of_run (Inl (Exc FileNotFoundError [])))"
      and env = "env_of_run (Inl (Exc FileNotFoundError []))" and entries = "[''libfoo.so.6'']"
      and prompt_title = "''Select candidate''" and silent = True and w = initial_world]
    prompt_configuration_errors [where pickers = "[(''odd'', preset_with_strategy (Some ''curses''))]"
      and picker_id = "''odd''" and cfg = "preset_with_strategy (Some ''curses'')"
      and name = "''curses''"
      and strategies = "[(''curses'', NotCallable)]"
      and env = "env_of_run (Inl (Exc FileNotFoundError []))" and entries = "[''libfoo.so.6'']"
      and prompt_title = "''Select candidate''" and silent = False and w = initial_world]
  by (simp add: PICKERS_def RUN_STRATEGIES_def strip_def isspace_def preset_with_strategy_def
      initial_world_def msg_unknown_picker_def msg_empty_strategy_def msg_not_callable_def)

section \<open>Indentation of an error message\<close>

lemma splitlines_from_no_break:
  "\<forall>c \<in> set xs. \<not> is_linebreak c \<Longrightarrow>
   splitlines_from cur (xs @ rest) = splitlines_from (cur @ xs) rest"
proof (induction xs arbitrary: cur)
  case Nil
  then show ?case by simp
next
  case (Cons c xs)
  then have "\<not> is_linebreak c" and "c \<noteq> CHR 0x0D"
    by (auto simp: is_linebreak_def)
  with Cons show ?case by simp
qed

lemma splitlines_from_newline:
  "splitlines_from cur (CHR 0x0A # rest) = (cur @ [CHR 0x0A]) # splitlines_from [] rest"
  by (simp add: is_linebreak_def)

lemma splitlines_keepends_first_line:
  assumes "\<forall>c \<in> set xs. \<not> is_linebreak c"
  shows "splitlines_keepends (xs @ CHR 0x0A # rest) = (xs @ [CHR 0x0A]) # splitlines_keepends rest"
proof -
  have "splitlines_from [] (xs @ CHR 0x0A # rest) = splitlines_from ([] @ xs) (CHR 0x0A # rest)"
    using assms by (rule splitlines_from_no_break)
  also have "\<dots> = (xs @ [CHR 0x0A]) # splitlines_from [] rest"
    by (simp only: splitlines_from_newline append_Nil)
  finally show ?thesis by (simp only: splitlines_keepends_def)
qed

lemma splitlines_keepends_one_line:
  assumes "\<forall>c \<in> set xs. \<not> is_linebreak c" and "xs \<noteq> []"
  shows "splitlines_keepends xs = [xs]"
proof -
  have "splitlines_from [] (xs @ []) = splitlines_from ([] @ xs) []"
    using assms(1) by (rule splitlines_from_no_break)
  with assms(2) show ?thesis by (simp add: splitlines_keepends_def)
qed

lemma strip_nonspace_head: "\<not> isspace c \<Longrightarrow> strip (c # s) \<noteq> []"
  by (auto simp: strip_eq_Nil_iff)

text \<open>A string that strips to something non-empty strips to something that does not
  strip to the empty string either: its last character is no whitespace.\<close>

lemma strip_strip_nonempty:
  assumes "strip s \<noteq> []"
  shows "strip (strip s) \<noteq> []"
proof -
  obtain y ys where dw: "dropWhile isspace (rev (dropWhile isspace s)) = y # ys"
    using assms by (cases "dropWhile isspace (rev (dropWhile isspace s))") (auto simp: strip_def)
  then have "\<not> isspace y" by (rule dropWhile_head)
  moreover from dw have "y \<in> set (strip s)" by (simp add: strip_def)
  ultimately show ?thesis by (auto simp: strip_eq_Nil_iff)
qed

lemma indent_first_line:
  assumes "\<forall>c \<in> set xs. \<not> is_linebreak c" and "strip (xs @ [CHR 0x0A]) \<noteq> []"
  shows "indent (xs @ CHR 0x0A # rest) pfx = pfx @ xs @ [CHR 0x0A] @ indent rest pfx"
  using assms by (simp add: indent_def splitlines_keepends_first_line)

lemma indent_one_line:
  assumes "\<forall>c \<in> set xs. \<not> is_linebreak c" and "strip xs \<noteq> []"
  shows "indent xs pfx = pfx @ xs"
proof -
  from assms(2) have "xs \<noteq> []" by (auto simp: strip_def)
  with assms show ?thesis by (simp add: indent_def splitlines_keepends_one_line)
qed

lemma str_nat_digits: "set (str_nat n) \<subseteq> set ''0123456789''"
proof (induction n rule: str_nat.induct)
  case (1 n)
  have digit: "''0123456789'' ! k \<in> set ''0123456789''" if "k < 10" for k
    using that nth_mem [of k "''0123456789''"] by simp
  show ?case
  proof (cases "n < 10")
    case True
    then show ?thesis
      using digit [of n] by (subst str_nat.simps) simp
  next
    case False
    have "n mod 10 < 10" by simp
    with False 1 digit [of "n mod 10"] show ?thesis
      by (subst str_nat.simps) simp
  qed
qed

lemma str_nat_no_break: "c \<in> set (str_nat n) \<Longrightarrow> \<not> is_linebreak c"
proof -
  assume "c \<in> set (str_nat n)"
  with str_nat_digits [of n] have "c \<in> set ''0123456789''" by (rule subsetD)
  then show ?thesis by (auto simp: is_linebreak_def)
qed

lemma str_int_no_break: "\<forall>c \<in> set (str_int i). \<not> is_linebreak c"
proof (cases "i < 0")
  case True
  then have "str_int i = CHR ''-'' # str_nat (nat (- i))" by (simp add: str_int_def)
  moreover have "\<not> is_linebreak (CHR ''-'')" by (simp add: is_linebreak_def)
  ultimately show ?thesis using str_nat_no_break by simp
next
  case False
  then have "str_int i = str_nat (nat i)" by (simp add: str_int_def)
  then show ?thesis using str_nat_no_break by simp
qed

text \<open>The message of the \<open>RuntimeError\<close> for an unexpected exit code, indented: its
  first line is indented as a whole, the error text follows line by line.\<close>

lemma indent_exit_code:
  "indent (''Exit code '' @ str_int rc @ '': \<newline>'' @ err) INDENT =
     INDENT @ ''Exit code '' @ str_int rc @ '': \<newline>'' @ indent err INDENT"
proof -
  let ?line = "''Exit code '' @ str_int rc @ '': ''"
  have "\<forall>c \<in> set ?line. \<not> is_linebreak c"
    using str_int_no_break [of rc] by (auto simp: is_linebreak_def)
  moreover have "strip (?line @ [CHR 0x0A]) \<noteq> []"
    using strip_nonspace_head [of "CHR ''E''"] by (simp add: isspace_def)
  ultimately have "indent (?line @ CHR 0x0A # err) INDENT =
      INDENT @ ?line @ [CHR 0x0A] @ indent err INDENT"
    by (rule indent_first_line)
  then show ?thesis by simp
qed

section \<open>An exit code that is neither a success nor ignored\<close>

text \<open>
  C4, as the claim states it, fails for an error text of more than one line: the
  \<open>RuntimeError\<close> raised for the exit code is raised inside the \<open>try\<close> block, so
  the generic handler catches it and raises a \<open>RuntimeError\<close> whose message holds the
  first message indented line by line. With exit code 2 and the standard error
  \<open>cannot open display\<close>, \<open>aborted\<close> on two lines, the stripped standard error is
  no part of the message of the exception that leaves the executor.
\<close>

theorem run_shell_multiline_stderr_counterexample:
  "fst (run_shell
          (env_of_run
             (Inr \<lparr>returncode = 2, stdout = '''',
                   stderr = ''cannot open display\<newline>aborted\<newline>''\<rparr>))
          [''libfoo.so.6''] ''Pick one'' ''zenity'' (Some [''--text=$title'']) (Some [0])
          (Some [1]) (Some '' '') initial_world) =
     Inl (Exc RuntimeError
       (''Failed to execute shell command: zenity --text=Pick one'' @ [CHR 0x27] @
        ''\<newline>  Exit code 2: \<newline>  cannot open display\<newline>  aborted'')) \<and>
   strip ''cannot open display\<newline>aborted\<newline>'' = ''cannot open display\<newline>aborted'' \<and>
   \<not> sublist ''cannot open display\<newline>aborted''
       (''Failed to execute shell command: zenity --text=Pick one'' @ [CHR 0x27] @
        ''\<newline>  Exit code 2: \<newline>  cannot open display\<newline>  aborted'')"
proof (intro conjI)
  show "fst (run_shell
          (env_of_run
             (Inr \<lparr>returncode = 2, stdout = '''',
                   stderr = ''cannot open display\<newline>aborted\<newline>''\<rparr>))
          [''libfoo.so.6''] ''Pick one'' ''zenity'' (Some [''--text=$title'']) (Some [0])
          (Some [1]) (Some '' '') initial_world) =
     Inl (Exc RuntimeError
       (''Failed to execute shell command: zenity --text=Pick one'' @ [CHR 0x27] @
        ''\<newline>  Exit code 2: \<newline>  cannot open display\<newline>  aborted''))"
    by (simp add: run_shell_def Let_def strip_def isspace_def env_of_run_def or_None_def
        match_delim_def id_start_def id_char_def str_int_def str_nat.simps
        is_FileNotFoundError_def is_Exception_def indent_def splitlines_keepends_def
        is_linebreak_def INDENT_def)
next
  show "strip ''cannot open display\<newline>aborted\<newline>'' = ''cannot open display\<newline>aborted''"
    by (simp add: strip_def isspace_def)
next
  show "\<not> sublist ''cannot open display\<newline>aborted''
       (''Failed to execute shell command: zenity --text=Pick one'' @ [CHR 0x27] @
        ''\<newline>  Exit code 2: \<newline>  cannot open display\<newline>  aborted'')"
    by code_simp
qed

text \<open>
  C4, amended. For every process whose exit code is in neither the success set nor the
  ignore set, the shell executor fails with a \<open>RuntimeError\<close> whose message is the text
  of the generic handler (\<open>Failed to execute shell command:\<close>, the command and the
  rendered arguments) followed by the message \<open>Exit code N:\<close>, newline, error text,
  indented by two spaces line by line; the error text is the stripped standard error, or
  \<open>No error message returned.\<close> when that is empty. The message contains the exit code,
  and it contains the error text as it is when that has one line only. The dispatcher,
  for a preset that gives the executor these arguments, returns the no-selection value
  and writes one diagnostic for the exception, unless the silence flag is set.
\<close>

theorem run_shell_unexpected_exit_code:
  fixes proc :: completed_process
    and title command :: string
    and args :: "string list option"
    and entries :: "string list"
    and entry_separator :: "string option"
  defines "formatted_args \<equiv>
      map (\<lambda>arg. safe_substitute arg title) (case args of None \<Rightarrow> [] | Some a \<Rightarrow> a)"
    and "stdin \<equiv> join (case entry_separator of None \<Rightarrow> ''\<newline>'' | Some sep \<Rightarrow> sep) entries"
    and "err \<equiv> (if strip (stderr proc) = [] then ''No error message returned.''
                 else strip (stderr proc))"
  defines "message \<equiv>
      ''Failed to execute shell command: '' @ strip command @ '' '' @
      join '' '' formatted_args @ [CHR 0x27] @ ''\<newline>'' @
      indent (''Exit code '' @ str_int (returncode proc) @ '': \<newline>'' @ err) INDENT"
  assumes command: "strip command \<noteq> []"
    and run: "subprocess_run env (strip command # formatted_args) stdin = Inr proc"
    and no_success:
      "returncode proc \<notin> set (case success_exit_codes of None \<Rightarrow> [] | Some cs \<Rightarrow> cs)"
    and no_ignore:
      "returncode proc \<notin> set (case ignore_exit_codes of None \<Rightarrow> [] | Some cs \<Rightarrow> cs)"
  shows "fst (run_shell env entries title command args success_exit_codes ignore_exit_codes
                entry_separator w) = Inl (Exc RuntimeError message) \<and>
         sublist (''Exit code '' @ str_int (returncode proc) @ '': '') message \<and>
         ((\<forall>c \<in> set err. \<not> is_linebreak c) \<longrightarrow> sublist err message) \<and>
         (map_of pickers (strip picker_id) = Some cfg \<and>
          strip (case cfg_strategy cfg of None \<Rightarrow> [] | Some s \<Rightarrow> s) = ''shell'' \<and>
          cfg_command cfg = Some command \<and> cfg_args cfg = Some args \<and>
          cfg_success_exit_codes cfg = Some success_exit_codes \<and>
          cfg_ignore_exit_codes cfg = Some ignore_exit_codes \<and>
          cfg_entry_separator cfg = entry_separator \<longrightarrow>
            prompt_with pickers (RUN_STRATEGIES env) env entries picker_id title silent w =
              (Inr None,
               if silent
               then w\<lparr>run_calls := run_calls w @ [(strip command # formatted_args, stdin)]\<rparr>
               else w\<lparr>run_calls := run_calls w @ [(strip command # formatted_args, stdin)],
                      sys_stderr := sys_stderr w @
                        [msg_raised env (strip picker_id) ''shell'' title cfg
                           (Exc RuntimeError message)]\<rparr>))"
proof (intro conjI impI)
  let ?w1 = "w\<lparr>run_calls := run_calls w @ [(strip command # formatted_args, stdin)]\<rparr>"
  have result: "run_shell env entries title command args success_exit_codes ignore_exit_codes
      entry_separator w = (Inl (Exc RuntimeError message), ?w1)"
    using run no_success no_ignore
    unfolding run_shell_launched [OF command] formatted_args_def stdin_def message_def err_def
    by (simp add: Let_def)
  then show "fst (run_shell env entries title command args success_exit_codes
      ignore_exit_codes entry_separator w) = Inl (Exc RuntimeError message)"
    by simp
  have shape: "message =
      (''Failed to execute shell command: '' @ strip command @ '' '' @
       join '' '' formatted_args @ [CHR 0x27] @ ''\<newline>'' @ INDENT) @
      (''Exit code '' @ str_int (returncode proc) @ '': '') @
      (''\<newline>'' @ indent err INDENT)"
    unfolding message_def indent_exit_code by simp
  then show "sublist (''Exit code '' @ str_int (returncode proc) @ '': '') message"
    unfolding sublist_def by blast
  {
    assume one_line: "\<forall>c \<in> set err. \<not> is_linebreak c"
    have "strip err \<noteq> []"
    proof (cases "strip (stderr proc) = []")
      case True
      then have "err = ''No error message returned.''" by (simp add: err_def)
      then show ?thesis
        using strip_nonspace_head [of "CHR ''N''"] by (simp add: isspace_def)
    next
      case False
      then have "err = strip (stderr proc)" by (simp add: err_def)
      with False show ?thesis by (simp add: strip_strip_nonempty)
    qed
    with one_line have "indent err INDENT = INDENT @ err" by (rule indent_one_line)
    with shape have "message =
        (''Failed to execute shell command: '' @ strip command @ '' '' @
         join '' '' formatted_args @ [CHR 0x27] @ ''\<newline>'' @ INDENT @
         ''Exit code '' @ str_int (returncode proc) @ '': '' @ ''\<newline>'' @ INDENT) @ err @ []"
      by simp
    then show "sublist err message"
      unfolding sublist_def by blast
  }
  {
    assume preset: "map_of pickers (strip picker_id) = Some cfg \<and>
        strip (case cfg_strategy cfg of None \<Rightarrow> [] | Some s \<Rightarrow> s) = ''shell'' \<and>
        cfg_command cfg = Some command \<and> cfg_args cfg = Some args \<and>
        cfg_success_exit_codes cfg = Some success_exit_codes \<and>
        cfg_ignore_exit_codes cfg = Some ignore_exit_codes \<and>
        cfg_entry_separator cfg = entry_separator"
    then have call: "call_run_shell env entries title cfg w =
        (Inl (Exc RuntimeError message), ?w1)"
      using result by (simp add: call_run_shell_def)
    have "prompt_with pickers (RUN_STRATEGIES env) env entries picker_id title silent w =
        (case call_run_shell env entries title cfg w of
           (Inr result, w1) \<Rightarrow> (Inr result, w1)
         | (Inl e, w1) \<Rightarrow>
             if is_Exception e then
               (Inr None,
                get_print silent (msg_raised env (strip picker_id) ''shell'' title cfg e) w1)
             else (Inl e, w1))"
      using preset by (intro prompt_with_executor) (simp_all add: RUN_STRATEGIES_def)
    then show "prompt_with pickers (RUN_STRATEGIES env) env entries picker_id title silent w =
        (Inr None,
         if silent
         then w\<lparr>run_calls := run_calls w @ [(strip command # formatted_args, stdin)]\<rparr>
         else w\<lparr>run_calls := run_calls w @ [(strip command # formatted_args, stdin)],
                sys_stderr := sys_stderr w @
                  [msg_raised env (strip picker_id) ''shell'' title cfg
                     (Exc RuntimeError message)]\<rparr>)"
      by (simp add: call is_Exception_def get_print_def)
  }
qed

theorem run_shell_unexpected_exit_code_witness:
  "strip ''zenity'' \<noteq> [] \<and> (2::int) \<notin> set [0] \<and> (2::int) \<notin> set [1] \<and>
   fst (run_shell
          (env_of_run (Inr \<lparr>returncode = 2, stdout = '''', stderr = ''cannot open display\<newline>''\<rparr>))
          [''libfoo.so.6'', ''libbar.so''] ''Pick one'' ''zenity''
          (Some [''--list'', ''--title=nix-alien: Choose a package'', ''--text=$title'',
                 ''--column=Libraries''])
          (Some [0]) (Some [1]) (Some '' '') initial_world) =
     Inl (Exc RuntimeError
       (''Failed to execute shell command: zenity --list '' @
        ''--title=nix-alien: Choose a package --text=Pick one --column=Libraries'' @
        [CHR 0x27] @ ''\<newline>  Exit code 2: \<newline>  cannot open display'')) \<and>
   sublist ''Exit code 2: ''
     (''Failed to execute shell command: zenity --list '' @
      ''--title=nix-alien: Choose a package --text=Pick one --column=Libraries'' @
      [CHR 0x27] @ ''\<newline>  Exit code 2: \<newline>  cannot open display'') \<and>
   sublist ''cannot open display''
     (''Failed to execute shell command: zenity --list '' @
      ''--title=nix-alien: Choose a package --text=Pick one --column=Libraries'' @
      [CHR 0x27] @ ''\<newline>  Exit code 2: \<newline>  cannot open display'') \<and>
   fst (prompt
          (env_of_run (Inr \<lparr>returncode = 2, stdout = '''', stderr = ''cannot open display\<newline>''\<rparr>))
          [''libfoo.so.6'', ''libbar.so''] ''zenity'' ''Pick one'' False initial_world) =
     Inr None \<and>
   length (sys_stderr (snd (prompt
          (env_of_run (Inr \<lparr>returncode = 2, stdout = '''', stderr = ''cannot open display\<newline>''\<rparr>))
          [''libfoo.so.6'', ''libbar.so''] ''zenity'' ''Pick one'' False initial_world))) = 1 \<and>
   sys_stderr (snd (prompt
          (env_of_run (Inr \<lparr>returncode = 2, stdout = '''', stderr = ''cannot open display\<newline>''\<rparr>))
          [''libfoo.so.6'', ''libbar.so''] ''zenity'' ''Pick one'' True initial_world)) = []"
  using
    run_shell_unexpected_exit_code [where command = "''zenity''"
      and env = "env_of_run (Inr \<lparr>returncode = 2, stdout = '''', stderr = ''cannot open display\<newline>''\<rparr>)"
      and proc = "\<lparr>returncode = 2, stdout = '''', stderr = ''cannot open display\<newline>''\<rparr>"
      and entries = "[''libfoo.so.6'', ''libbar.so'']" and title = "''Pick one''"
      and args = "Some [''--list'', ''--title=nix-alien: Choose a package'', ''--text=$title'',
                        ''--column=Libraries'']"
      and success_exit_codes = "Some [0]" and ignore_exit_codes = "Some [1]"
      and entry_separator = "Some '' ''" and w = initial_world
      and pickers = PICKERS and picker_id = "''zenity''"
      and cfg = "the (map_of PICKERS ''zenity'')" and silent = False]
    run_shell_unexpected_exit_code [where command = "''zenity''"
      and env = "env_of_run (Inr \<lparr>returncode = 2, stdout = '''', stderr = ''cannot open display\<newline>''\<rparr>)"
      and proc = "\<lparr>returncode = 2, stdout = '''', stderr = ''cannot open display\<newline>''\<rparr>"
      and entries = "[''libfoo.so.6'', ''libbar.so'']" and title = "''Pick one''"
      and args = "Some [''--list'', ''--title=nix-alien: Choose a package'', ''--text=$title'',
                        ''--column=Libraries'']"
      and success_exit_codes = "Some [0]" and ignore_exit_codes = "Some [1]"
      and entry_separator = "Some '' ''" and w = initial_world
      and pickers = PICKERS and picker_id = "''zenity''"
      and cfg = "the (map_of PICKERS ''zenity'')" and silent = True]
  by (simp add: PICKERS_def prompt_def strip_def isspace_def env_of_run_def initial_world_def
      match_delim_def id_start_def id_char_def str_int_def str_nat.simps indent_def
      splitlines_keepends_def is_linebreak_def INDENT_def)

end
